theory Spec2Isabelle
  imports Complex_Main
begin

section \<open>Python values of a job payload\<close>

text \<open>
  The handler of \<^verbatim>\<open>handler.py\<close> receives a JSON-decoded job: a dynamically typed
  value. A float is kept as the exact rational value of the double it holds, or as one of the
  three special values (negative zero is not told apart from zero: both are falsy and both
  truncate to 0). A dict is an association list from string keys to values, looked up with
  \<open>map_of\<close>.
\<close>

datatype pyfloat = Finite rat | PosInf | NegInf | NaN

datatype pyval =
    PNone
  | PBool bool
  | PInt int
  | PFloat pyfloat
  | PStr string
  | PList "pyval list"
  | PDict "(string \<times> pyval) list"

text \<open>
  An exception carries its class name and \<^verbatim>\<open>str(e)\<close>. \<open>Exception\<close> stands for every class
  derived from Python's \<^verbatim>\<open>Exception\<close>, \<open>BaseException\<close> for the classes that are not
  (\<^verbatim>\<open>SystemExit\<close>, \<^verbatim>\<open>KeyboardInterrupt\<close>): \<^verbatim>\<open>except Exception\<close> catches the first kind only.
\<close>

datatype pyexc = Exception string string | BaseException string string

text \<open>
  Control flow of a block of statements: it falls through with the values of its local
  variables, executes \<^verbatim>\<open>return\<close>, or raises.
\<close>

datatype 'a flow = Normal 'a | Return pyval | Raise pyexc

text \<open>
  Sequencing: a call that raises ends the block (\<open>bind_exc\<close>) or the expression
  (\<open>bind_sum\<close>) with that exception; otherwise the rest runs on the value.
\<close>

definition bind_exc :: "pyexc + 'a \<Rightarrow> ('a \<Rightarrow> 'b flow) \<Rightarrow> 'b flow" where
  "bind_exc x f = (case x of Inl e \<Rightarrow> Raise e | Inr v \<Rightarrow> f v)"

definition bind_sum :: "pyexc + 'a \<Rightarrow> ('a \<Rightarrow> pyexc + 'b) \<Rightarrow> pyexc + 'b" where
  "bind_sum x f = (case x of Inl e \<Rightarrow> Inl e | Inr v \<Rightarrow> f v)"

definition bind_flow :: "'a flow \<Rightarrow> ('a \<Rightarrow> 'b flow) \<Rightarrow> 'b flow" where
  "bind_flow x f = (case x of Raise e \<Rightarrow> Raise e | Return r \<Rightarrow> Return r | Normal v \<Rightarrow> f v)"

subsection \<open>Builtins\<close>

definition quote :: "string \<Rightarrow> string" where
  "quote s = [CHR 0x27] @ s @ [CHR 0x27]"

fun type_name :: "pyval \<Rightarrow> string" where
  "type_name PNone = ''NoneType''"
| "type_name (PBool b) = ''bool''"
| "type_name (PInt n) = ''int''"
| "type_name (PFloat x) = ''float''"
| "type_name (PStr s) = ''str''"
| "type_name (PList xs) = ''list''"
| "type_name (PDict kvs) = ''dict''"

text \<open>Truth value testing, as \<^verbatim>\<open>not x\<close> uses it.\<close>

fun truthy :: "pyval \<Rightarrow> bool" where
  "truthy PNone = False"
| "truthy (PBool b) = b"
| "truthy (PInt n) = (n \<noteq> 0)"
| "truthy (PFloat (Finite q)) = (q \<noteq> 0)"
| "truthy (PFloat x) = True"
| "truthy (PStr s) = (s \<noteq> [])"
| "truthy (PList xs) = (xs \<noteq> [])"
| "truthy (PDict kvs) = (kvs \<noteq> [])"

text \<open>
  \<^verbatim>\<open>x.get(key, default)\<close>: only a dict has the method; on any other JSON value the attribute
  lookup raises \<^verbatim>\<open>AttributeError\<close>.
\<close>

definition dict_get :: "(string \<times> pyval) list \<Rightarrow> string \<Rightarrow> pyval \<Rightarrow> pyval" where
  "dict_get kvs k d = (case map_of kvs k of None \<Rightarrow> d | Some v \<Rightarrow> v)"

fun py_get :: "pyval \<Rightarrow> string \<Rightarrow> pyval \<Rightarrow> pyexc + pyval" where
  "py_get (PDict kvs) k d = Inr (dict_get kvs k d)"
| "py_get v k d =
     Inl (Exception ''AttributeError''
            (quote (type_name v) @ '' object has no attribute '' @ quote ''get''))"

text \<open>
  The elements a \<^verbatim>\<open>for\<close> loop visits: the items of a list, the characters of a string, the
  keys of a dict; the other values are not iterable.
\<close>

fun py_iter :: "pyval \<Rightarrow> pyexc + pyval list" where
  "py_iter (PList xs) = Inr xs"
| "py_iter (PStr s) = Inr (map (\<lambda>c. PStr [c]) s)"
| "py_iter (PDict kvs) = Inr (map (\<lambda>kv. PStr (fst kv)) kvs)"
| "py_iter v =
     Inl (Exception ''TypeError'' (quote (type_name v) @ '' object is not iterable''))"

text \<open>
  \<^verbatim>\<open>float(n)\<close> for an integer: the nearest double, ties to even, and \<^verbatim>\<open>OverflowError\<close> when
  the rounded magnitude reaches \<open>2 ^ 1024\<close>.
\<close>

function bit_length :: "int \<Rightarrow> nat" where
  "bit_length n = (if n \<le> 0 then 0 else Suc (bit_length (n div 2)))"
  by pat_completeness auto
termination
  by (relation "measure nat") auto

declare bit_length.simps [simp del]

definition float_of_int :: "int \<Rightarrow> pyexc + pyfloat" where
  "float_of_int n =
     (let a = \<bar>n\<bar>;
          e = bit_length a - 53;
          q = a div 2 ^ e;
          r = a mod 2 ^ e;
          q' = (if 2 * r > 2 ^ e \<or> (2 * r = 2 ^ e \<and> odd q) then q + 1 else q);
          v = q' * 2 ^ e
      in if v \<ge> 2 ^ 1024
         then Inl (Exception ''OverflowError'' ''int too large to convert to float'')
         else Inr (Finite (of_int (sgn n * v))))"

text \<open>\<^verbatim>\<open>int(x)\<close> for a float: truncation towards zero; the special values raise.\<close>

fun int_of_float :: "pyfloat \<Rightarrow> pyexc + int" where
  "int_of_float (Finite q) = Inr (if q \<ge> 0 then \<lfloor>q\<rfloor> else - \<lfloor>- q\<rfloor>)"
| "int_of_float NaN = Inl (Exception ''ValueError'' ''cannot convert float NaN to integer'')"
| "int_of_float x =
     Inl (Exception ''OverflowError'' ''cannot convert float infinity to integer'')"

section \<open>The handler's collaborators\<close>

text \<open>
  A directory is the list of the names of its entries in listing order; the file system maps
  the path of each directory to that list.
\<close>

type_synonym filesystem = "string \<Rightarrow> string list option"

text \<open>The keyword arguments of the call to \<^verbatim>\<open>infer\<close> (lines 95 to 112).\<close>

record infer_args =
  kw_output_path :: string
  kw_seed :: int
  kw_pipeline_config :: string
  kw_image_cond_noise_scale :: pyfloat
  kw_height :: int
  kw_width :: int
  kw_num_frames :: int
  kw_frame_rate :: int
  kw_prompt :: pyval
  kw_negative_prompt :: pyval
  kw_offload_to_cpu :: bool
  kw_input_media_path :: pyval
  kw_conditioning_media_paths :: "pyval list"
  kw_conditioning_strengths :: "pyfloat list"
  kw_conditioning_start_frames :: "int list"
  kw_device :: string

text \<open>
  Everything the handler calls and this repository does not define: \<^verbatim>\<open>random.randint\<close>,
  \<^verbatim>\<open>tempfile.mkdtemp\<close> (given the prefix, it raises or returns the path of the directory it
  created and the new file system), \<^verbatim>\<open>get_device\<close> and \<^verbatim>\<open>infer\<close> of \<^verbatim>\<open>inference.py\<close>
  (\<^verbatim>\<open>infer\<close> raises or leaves a new file system), and the parsers behind \<^verbatim>\<open>int(s)\<close> and
  \<^verbatim>\<open>float(s)\<close> on a string (\<open>Inl m\<close> is a \<^verbatim>\<open>ValueError\<close> with message \<open>m\<close>).
\<close>

record world =
  randint :: "int \<Rightarrow> int \<Rightarrow> int"
  mkdtemp :: "string \<Rightarrow> filesystem \<Rightarrow> pyexc + string \<times> filesystem"
  get_device :: "pyexc + string"
  infer :: "infer_args \<Rightarrow> filesystem \<Rightarrow> pyexc + filesystem"
  int_of_str :: "string \<Rightarrow> string + int"
  float_of_str :: "string \<Rightarrow> string + pyfloat"

fun py_int :: "world \<Rightarrow> pyval \<Rightarrow> pyexc + int" where
  "py_int w (PBool b) = Inr (if b then 1 else 0)"
| "py_int w (PInt n) = Inr n"
| "py_int w (PFloat x) = int_of_float x"
| "py_int w (PStr s) =
     (case int_of_str w s of Inl m \<Rightarrow> Inl (Exception ''ValueError'' m) | Inr n \<Rightarrow> Inr n)"
| "py_int w v =
     Inl (Exception ''TypeError''
            (''int() argument must be a string, a bytes-like object or a real number, not ''
             @ quote (type_name v)))"

fun py_float :: "world \<Rightarrow> pyval \<Rightarrow> pyexc + pyfloat" where
  "py_float w (PBool b) = Inr (Finite (if b then 1 else 0))"
| "py_float w (PInt n) = float_of_int n"
| "py_float w (PFloat x) = Inr x"
| "py_float w (PStr s) =
     (case float_of_str w s of Inl m \<Rightarrow> Inl (Exception ''ValueError'' m) | Inr x \<Rightarrow> Inr x)"
| "py_float w v =
     Inl (Exception ''TypeError''
            (''float() argument must be a string or a real number, not ''
             @ quote (type_name v)))"

text \<open>
  \<^verbatim>\<open>Path(d).glob("*" + ext)\<close>: the entries of \<open>d\<close> itself whose name ends with \<open>ext\<close>, in
  listing order, each as the path \<open>d/name\<close>; nothing for a directory that does not exist.
\<close>

definition endswith :: "string \<Rightarrow> string \<Rightarrow> bool" where
  "endswith s ext = (length ext \<le> length s \<and> drop (length s - length ext) s = ext)"

definition glob :: "filesystem \<Rightarrow> string \<Rightarrow> string \<Rightarrow> string list" where
  "glob fs d ext =
     (case fs d of
        None \<Rightarrow> []
      | Some names \<Rightarrow> map (\<lambda>n. d @ ''/'' @ n) (filter (\<lambda>n. endswith n ext) names))"

section \<open>The handler\<close>

definition DEFAULT_MODEL_CONFIG :: string where
  "DEFAULT_MODEL_CONFIG = ''configs/ltxv-13b-0.9.7-distilled.yaml''"

definition DEFAULT_HEIGHT :: int where "DEFAULT_HEIGHT = 704"
definition DEFAULT_WIDTH :: int where "DEFAULT_WIDTH = 1216"
definition DEFAULT_NUM_FRAMES :: int where "DEFAULT_NUM_FRAMES = 121"
definition DEFAULT_FRAME_RATE :: int where "DEFAULT_FRAME_RATE = 30"

definition default_negative_prompt :: string where
  "default_negative_prompt = ''worst quality, inconsistent motion, blurry, jittery, distorted''"

text \<open>
  The float literals of the source: \<^verbatim>\<open>1.0\<close>, and \<^verbatim>\<open>0.15\<close>, which denotes the double
  \<open>5404319552844595 / 2 ^ 55\<close>.
\<close>

definition float_1_0 :: pyfloat where
  "float_1_0 = Finite 1"

definition float_0_15 :: pyfloat where
  "float_0_15 = Finite (5404319552844595 / 36028797018963968)"

text \<open>The two result mappings.\<close>

definition error_result :: "string \<Rightarrow> pyval" where
  "error_result msg = PDict [(''error'', PStr msg)]"

definition video_result :: "string \<Rightarrow> pyval" where
  "video_result path = PDict [(''output_video'', PStr path)]"

subsection \<open>Lines 23 to 39: input validation and defaults\<close>

record inputs =
  prompt :: pyval
  negative_prompt :: pyval
  height :: pyval
  width :: pyval
  num_frames :: pyval
  frame_rate :: pyval
  seed :: pyval
  conditioning_images_input :: pyval

definition read_inputs :: "world \<Rightarrow> pyval \<Rightarrow> inputs flow" where
  "read_inputs w job =
     bind_exc (py_get job ''input'' (PDict [])) (\<lambda>job_input.
     bind_exc (py_get job_input ''prompt'' PNone) (\<lambda>v_prompt.
     if \<not> truthy v_prompt then Return (error_result ''Prompt is a required input.'') else
     bind_exc (py_get job_input ''negative_prompt'' (PStr default_negative_prompt))
       (\<lambda>v_negative_prompt.
     bind_exc (py_get job_input ''height'' (PInt DEFAULT_HEIGHT)) (\<lambda>v_height.
     bind_exc (py_get job_input ''width'' (PInt DEFAULT_WIDTH)) (\<lambda>v_width.
     bind_exc (py_get job_input ''num_frames'' (PInt DEFAULT_NUM_FRAMES)) (\<lambda>v_num_frames.
     bind_exc (py_get job_input ''frame_rate'' (PInt DEFAULT_FRAME_RATE)) (\<lambda>v_frame_rate.
     bind_exc (py_get job_input ''seed'' (PInt (randint w 0 (2 ^ 32 - 1)))) (\<lambda>v_seed.
     bind_exc (py_get job_input ''conditioning_images'' (PList [])) (\<lambda>v_images.
     if \<not> truthy v_images
     then Return (error_result
            ''At least one conditioning image (first frame) is required for image-to-video.'')
     else Normal \<lparr>prompt = v_prompt, negative_prompt = v_negative_prompt,
                  height = v_height, width = v_width, num_frames = v_num_frames,
                  frame_rate = v_frame_rate, seed = v_seed,
                  conditioning_images_input = v_images\<rparr>)))))))))"

subsection \<open>Lines 64 to 75: the loop over the conditioning entries\<close>

text \<open>
  One pass of the loop body: it returns the error mapping, raises, or yields the three values
  it appends (the url, \<^verbatim>\<open>int(start_frame)\<close>, \<^verbatim>\<open>float(strength)\<close>).
\<close>

definition missing_pair_message :: string where
  "missing_pair_message = ''Each conditioning image must have a 'url' and 'start_frame'.''"

definition process_entry :: "world \<Rightarrow> pyval \<Rightarrow> (pyval \<times> int \<times> pyfloat) flow" where
  "process_entry w image_info =
     bind_exc (py_get image_info ''url'' PNone) (\<lambda>url.
     bind_exc (py_get image_info ''start_frame'' PNone) (\<lambda>start_frame.
     bind_exc (py_get image_info ''strength'' (PFloat float_1_0)) (\<lambda>strength.
     if \<not> truthy url \<or> start_frame = PNone
     then Return (error_result missing_pair_message)
     else
     bind_exc (py_int w start_frame) (\<lambda>n.
     bind_exc (py_float w strength) (\<lambda>x.
     Normal (url, n, x))))))"

text \<open>
  The loop, with the three lists \<^verbatim>\<open>conditioning_media_paths\<close>,
  \<^verbatim>\<open>conditioning_start_frames\<close> and \<^verbatim>\<open>conditioning_strengths\<close> as its state.
\<close>

fun process_images ::
  "world \<Rightarrow> pyval list \<Rightarrow> pyval list \<times> int list \<times> pyfloat list
     \<Rightarrow> (pyval list \<times> int list \<times> pyfloat list) flow" where
  "process_images w [] acc = Normal acc"
| "process_images w (image_info # rest) (paths, frames, strengths) =
     bind_flow (process_entry w image_info) (\<lambda>(url, n, x).
     process_images w rest (paths @ [url], frames @ [n], strengths @ [x]))"

subsection \<open>Lines 23 to 78: everything before the \<^verbatim>\<open>try\<close> block\<close>

record prepared =
  inp :: inputs
  job_output_dir :: string
  conditioning_media_paths :: "pyval list"
  conditioning_start_frames :: "int list"
  conditioning_strengths :: "pyfloat list"
  fs1 :: filesystem

definition prepare :: "world \<Rightarrow> filesystem \<Rightarrow> pyval \<Rightarrow> prepared flow" where
  "prepare w fs job =
     bind_flow (read_inputs w job) (\<lambda>i.
     bind_exc (mkdtemp w ''ltx_video_output_'' fs) (\<lambda>(d, fs').
     bind_exc (py_iter (conditioning_images_input i)) (\<lambda>entries.
     bind_flow (process_images w entries ([], [], [])) (\<lambda>(paths, frames, strengths).
     if paths = []
     then Return (error_result ''No valid conditioning images provided or processed.'')
     else Normal \<lparr>inp = i, job_output_dir = d, conditioning_media_paths = paths,
                  conditioning_start_frames = frames,
                  conditioning_strengths = strengths, fs1 = fs'\<rparr>))))"

subsection \<open>Lines 81 to 141: the \<^verbatim>\<open>try\<close> block\<close>

text \<open>
  The arguments of the call are evaluated in the order they are written; the first \<^verbatim>\<open>int\<close>
  that fails raises inside the \<^verbatim>\<open>try\<close> block, before \<^verbatim>\<open>infer\<close> is entered.
\<close>

definition infer_kwargs :: "world \<Rightarrow> prepared \<Rightarrow> string \<Rightarrow> pyexc + infer_args" where
  "infer_kwargs w p device =
     bind_sum (py_int w (seed (inp p))) (\<lambda>n_seed.
     bind_sum (py_int w (height (inp p))) (\<lambda>n_height.
     bind_sum (py_int w (width (inp p))) (\<lambda>n_width.
     bind_sum (py_int w (num_frames (inp p))) (\<lambda>n_num_frames.
     bind_sum (py_int w (frame_rate (inp p))) (\<lambda>n_frame_rate.
     Inr \<lparr>kw_output_path = job_output_dir p,
          kw_seed = n_seed,
          kw_pipeline_config = DEFAULT_MODEL_CONFIG,
          kw_image_cond_noise_scale = float_0_15,
          kw_height = n_height,
          kw_width = n_width,
          kw_num_frames = n_num_frames,
          kw_frame_rate = n_frame_rate,
          kw_prompt = prompt (inp p),
          kw_negative_prompt = negative_prompt (inp p),
          kw_offload_to_cpu = False,
          kw_input_media_path = PNone,
          kw_conditioning_media_paths = conditioning_media_paths p,
          kw_conditioning_strengths = conditioning_strengths p,
          kw_conditioning_start_frames = conditioning_start_frames p,
          kw_device = device\<rparr>)))))"

text \<open>Lines 121 to 134: the scan of the output directory.\<close>

definition locate_output :: "filesystem \<Rightarrow> string \<Rightarrow> pyval" where
  "locate_output fs d =
     (case glob fs d ''.mp4'' @ glob fs d ''.png'' of
        [] \<Rightarrow> error_result ''Inference completed but no output video/image file found.''
      | output_file_path # _ \<Rightarrow> video_result output_file_path)"

text \<open>
  A run of the handler: what it returns or raises, and the calls of \<^verbatim>\<open>infer\<close> it has made,
  each with its arguments.
\<close>

record run =
  outcome :: "pyexc + pyval"
  infer_calls :: "infer_args list"

text \<open>Lines 136 to 141: \<^verbatim>\<open>except Exception as e\<close>.\<close>

definition except_handler :: "pyexc \<Rightarrow> pyexc + pyval" where
  "except_handler e =
     (case e of
        Exception c m \<Rightarrow> Inr (error_result (''Inference failed: '' @ m))
      | BaseException c m \<Rightarrow> Inl e)"

definition run_inference :: "world \<Rightarrow> prepared \<Rightarrow> run" where
  "run_inference w p =
     (case get_device w of
        Inl e \<Rightarrow> \<lparr>outcome = except_handler e, infer_calls = []\<rparr>
      | Inr device \<Rightarrow>
     (case infer_kwargs w p device of
        Inl e \<Rightarrow> \<lparr>outcome = except_handler e, infer_calls = []\<rparr>
      | Inr args \<Rightarrow>
     (case infer w args (fs1 p) of
        Inl e \<Rightarrow> \<lparr>outcome = except_handler e, infer_calls = [args]\<rparr>
      | Inr fs2 \<Rightarrow>
          \<lparr>outcome = Inr (locate_output fs2 (job_output_dir p)), infer_calls = [args]\<rparr>)))"

definition handler :: "world \<Rightarrow> filesystem \<Rightarrow> pyval \<Rightarrow> run" where
  "handler w fs job =
     (case prepare w fs job of
        Raise e \<Rightarrow> \<lparr>outcome = Inl e, infer_calls = []\<rparr>
      | Return r \<Rightarrow> \<lparr>outcome = Inr r, infer_calls = []\<rparr>
      | Normal p \<Rightarrow> run_inference w p)"

section \<open>Notions the properties are stated with\<close>

text \<open>The two shapes of a result mapping.\<close>

fun is_video_result :: "pyval \<Rightarrow> bool" where
  "is_video_result (PDict [(k, PStr path)]) = (k = ''output_video'')"
| "is_video_result v = False"

fun is_error_result :: "pyval \<Rightarrow> bool" where
  "is_error_result (PDict [(k, PStr msg)]) = (k = ''error'')"
| "is_error_result v = False"

text \<open>\<open>is_substring sub s\<close>: the text \<open>s\<close> mentions \<open>sub\<close>.\<close>

fun is_substring :: "string \<Rightarrow> string \<Rightarrow> bool" where
  "is_substring sub [] = (sub = [])"
| "is_substring sub (c # cs) = (take (length sub) (c # cs) = sub \<or> is_substring sub cs)"

text \<open>
  What an entry of \<^verbatim>\<open>conditioning_images\<close> holds: its url, \<^verbatim>\<open>int\<close> of its start frame and
  \<^verbatim>\<open>float\<close> of its strength (\<^verbatim>\<open>1.0\<close> when it has none).
\<close>

definition entry_url :: "pyval \<Rightarrow> pyexc + pyval" where
  "entry_url e = py_get e ''url'' PNone"

definition entry_start_frame :: "world \<Rightarrow> pyval \<Rightarrow> pyexc + int" where
  "entry_start_frame w e = bind_sum (py_get e ''start_frame'' PNone) (py_int w)"

definition entry_strength :: "world \<Rightarrow> pyval \<Rightarrow> pyexc + pyfloat" where
  "entry_strength w e = bind_sum (py_get e ''strength'' (PFloat float_1_0)) (py_float w)"

text \<open>
  An entry the loop body cannot raise on: a mapping whose start frame and strength, when it
  carries a url and a start frame, are accepted by \<^verbatim>\<open>int\<close> and \<^verbatim>\<open>float\<close>.
\<close>

definition entry_coercible :: "world \<Rightarrow> pyval \<Rightarrow> bool" where
  "entry_coercible w e =
     (case e of
        PDict kvs \<Rightarrow>
          if truthy (dict_get kvs ''url'' PNone) \<and> dict_get kvs ''start_frame'' PNone \<noteq> PNone
          then \<not> isl (entry_start_frame w e) \<and> \<not> isl (entry_strength w e)
          else True
      | _ \<Rightarrow> False)"





text \<open>The contract of \<^verbatim>\<open>random.randint(a, b)\<close>: an integer \<open>N\<close> with \<open>a \<le> N \<le> b\<close>.\<close>

definition randint_contract :: "world \<Rightarrow> bool" where
  "randint_contract w = (\<forall>lo hi. lo \<le> hi \<longrightarrow> lo \<le> randint w lo hi \<and> randint w lo hi \<le> hi)"

text \<open>
  How a numeric field of the input reaches \<^verbatim>\<open>infer\<close>: the default when the key is absent,
  \<^verbatim>\<open>int\<close> of the supplied value otherwise (the supplied value itself when it is an integer).
\<close>

definition passed_int :: "world \<Rightarrow> (string \<times> pyval) list \<Rightarrow> string \<Rightarrow> int \<Rightarrow> int \<Rightarrow> bool" where
  "passed_int w ikvs k dflt a =
     (case map_of ikvs k of None \<Rightarrow> a = dflt | Some v \<Rightarrow> py_int w v = Inr a)"

text \<open>
  The scan of the output directory as the specification words it: the first entry, in
  listing order, that matches \<^verbatim>\<open>*.mp4\<close> or \<^verbatim>\<open>*.png\<close>.
\<close>

definition spec_locate_output :: "filesystem \<Rightarrow> string \<Rightarrow> pyval" where
  "spec_locate_output fs d =
     (case fs d of
        None \<Rightarrow> error_result ''Inference completed but no output video/image file found.''
      | Some names \<Rightarrow>
          (case find (\<lambda>n. endswith n ''.mp4'' \<or> endswith n ''.png'') names of
             None \<Rightarrow> error_result ''Inference completed but no output video/image file found.''
           | Some n \<Rightarrow> video_result (d @ ''/'' @ n)))"

section \<open>Fixtures\<close>

text \<open>
  A stubbed environment in the manner of a unit test: \<^verbatim>\<open>randint\<close> returns its upper bound,
  \<^verbatim>\<open>mkdtemp\<close> creates the empty directory \<^verbatim>\<open>/tmp/ltx_video_output_0\<close>, the device is
  \<^verbatim>\<open>cpu\<close>, \<^verbatim>\<open>infer\<close> writes \<^verbatim>\<open>video_0.mp4\<close> into the directory it is given, and the string
  parsers reject every string (the jobs below carry numbers, not strings).
\<close>

definition stub_world :: world where
  "stub_world =
     \<lparr>randint = (\<lambda>lo hi. hi),
      mkdtemp = (\<lambda>prefix fs.
        Inr (''/tmp/'' @ prefix @ ''0'', fs(''/tmp/'' @ prefix @ ''0'' \<mapsto> []))),
      get_device = Inr ''cpu'',
      infer = (\<lambda>args fs. Inr (fs(kw_output_path args \<mapsto> [''video_0.mp4'']))),
      int_of_str = (\<lambda>s. Inl (''invalid literal for int() with base 10: '' @ quote s)),
      float_of_str = (\<lambda>s. Inl (''could not convert string to float: '' @ quote s))\<rparr>"

definition empty_fs :: filesystem where
  "empty_fs = (\<lambda>d. None)"

text \<open>Environments whose \<^verbatim>\<open>infer\<close> writes nothing, writes two files, or raises.\<close>

definition silent_world :: world where
  "silent_world = stub_world\<lparr>infer := (\<lambda>args fs. Inr fs)\<rparr>"

definition mixed_world :: world where
  "mixed_world =
     stub_world\<lparr>infer := (\<lambda>args fs. Inr (fs(kw_output_path args \<mapsto> [''a.png'', ''b.mp4''])))\<rparr>"

definition failing_world :: world where
  "failing_world =
     stub_world\<lparr>infer := (\<lambda>args fs. Inl (Exception ''RuntimeError'' ''CUDA out of memory''))\<rparr>"

definition no_tmp_world :: world where
  "no_tmp_world =
     stub_world\<lparr>mkdtemp := (\<lambda>prefix fs.
        Inl (Exception ''OSError'' ''[Errno 28] No space left on device''))\<rparr>"

text \<open>Jobs.\<close>

definition entry_a :: pyval where
  "entry_a = PDict [(''url'', PStr ''http://host/a.png''), (''start_frame'', PInt 0)]"

definition entry_b :: pyval where
  "entry_b =
     PDict [(''url'', PStr ''http://host/b.png''), (''start_frame'', PInt 60),
            (''strength'', PFloat (Finite (1 / 2)))]"

definition job_of :: "(string \<times> pyval) list \<Rightarrow> pyval" where
  "job_of kvs = PDict [(''id'', PStr ''job-1''), (''input'', PDict kvs)]"

definition good_job :: pyval where
  "good_job = job_of [(''prompt'', PStr ''a cat''), (''conditioning_images'', PList [entry_a, entry_b])]"

definition no_prompt_job :: pyval where
  "no_prompt_job = job_of [(''conditioning_images'', PList [])]"

definition no_images_job :: pyval where
  "no_images_job = job_of [(''prompt'', PStr ''a cat''), (''conditioning_images'', PList [])]"

text \<open>An entry whose start frame is a list, and an entry without a start frame.\<close>

definition entry_list_frame :: pyval where
  "entry_list_frame = PDict [(''url'', PStr ''http://host/a.png''), (''start_frame'', PList [])]"

definition entry_no_frame :: pyval where
  "entry_no_frame = PDict [(''url'', PStr ''http://host/b.png'')]"

definition uncoercible_job :: pyval where
  "uncoercible_job =
     job_of [(''prompt'', PStr ''a cat''), (''conditioning_images'', PList [entry_list_frame])]"

definition late_defect_job :: pyval where
  "late_defect_job =
     job_of [(''prompt'', PStr ''a cat''),
             (''conditioning_images'', PList [entry_list_frame, entry_no_frame])]"

definition defect_job :: pyval where
  "defect_job =
     job_of [(''prompt'', PStr ''a cat''),
             (''conditioning_images'', PList [entry_a, entry_no_frame, entry_b])]"

text \<open>The state of \<open>good_job\<close> at the \<^verbatim>\<open>try\<close> block, and the call it leads to.\<close>

definition good_inputs :: inputs where
  "good_inputs =
     \<lparr>prompt = PStr ''a cat'',
      negative_prompt = PStr default_negative_prompt,
      height = PInt 704, width = PInt 1216, num_frames = PInt 121, frame_rate = PInt 30,
      seed = PInt 4294967295,
      conditioning_images_input = PList [entry_a, entry_b]\<rparr>"

definition good_prepared :: prepared where
  "good_prepared =
     \<lparr>inp = good_inputs,
      job_output_dir = ''/tmp/ltx_video_output_0'',
      conditioning_media_paths = [PStr ''http://host/a.png'', PStr ''http://host/b.png''],
      conditioning_start_frames = [0, 60],
      conditioning_strengths = [Finite 1, Finite (1 / 2)],
      fs1 = empty_fs(''/tmp/ltx_video_output_0'' \<mapsto> [])\<rparr>"

definition good_args :: infer_args where
  "good_args =
     \<lparr>kw_output_path = ''/tmp/ltx_video_output_0'',
      kw_seed = 4294967295,
      kw_pipeline_config = ''configs/ltxv-13b-0.9.7-distilled.yaml'',
      kw_image_cond_noise_scale = float_0_15,
      kw_height = 704, kw_width = 1216, kw_num_frames = 121, kw_frame_rate = 30,
      kw_prompt = PStr ''a cat'',
      kw_negative_prompt = PStr default_negative_prompt,
      kw_offload_to_cpu = False,
      kw_input_media_path = PNone,
      kw_conditioning_media_paths = [PStr ''http://host/a.png'', PStr ''http://host/b.png''],
      kw_conditioning_strengths = [Finite 1, Finite (1 / 2)],
      kw_conditioning_start_frames = [0, 60],
      kw_device = ''cpu''\<rparr>"

text \<open>A job that supplies every optional field.\<close>

definition custom_job :: pyval where
  "custom_job =
     job_of [(''prompt'', PStr ''a dog''), (''negative_prompt'', PStr ''blurry''),
             (''height'', PInt 512), (''width'', PInt 768), (''num_frames'', PInt 25),
             (''frame_rate'', PInt 24), (''seed'', PInt 7),
             (''conditioning_images'', PList [entry_a])]"

definition custom_prepared :: prepared where
  "custom_prepared =
     \<lparr>inp = \<lparr>prompt = PStr ''a dog'', negative_prompt = PStr ''blurry'',
             height = PInt 512, width = PInt 768, num_frames = PInt 25,
             frame_rate = PInt 24, seed = PInt 7,
             conditioning_images_input = PList [entry_a]\<rparr>,
      job_output_dir = ''/tmp/ltx_video_output_0'',
      conditioning_media_paths = [PStr ''http://host/a.png''],
      conditioning_start_frames = [0],
      conditioning_strengths = [Finite 1],
      fs1 = empty_fs(''/tmp/ltx_video_output_0'' \<mapsto> [])\<rparr>"

text \<open>What \<open>mixed_world\<close> leaves in the output directory of \<open>good_job\<close>.\<close>

definition mixed_fs :: filesystem where
  "mixed_fs = empty_fs(''/tmp/ltx_video_output_0'' \<mapsto> [''a.png'', ''b.mp4''])"

text \<open>An environment whose \<^verbatim>\<open>infer\<close> calls \<^verbatim>\<open>sys.exit(1)\<close>.\<close>

definition exiting_world :: world where
  "exiting_world =
     stub_world\<lparr>infer := (\<lambda>args fs. Inl (BaseException ''SystemExit'' ''1''))\<rparr>"

text \<open>An entry whose strength is \<^verbatim>\<open>null\<close>.\<close>

definition entry_null_strength :: pyval where
  "entry_null_strength =
     PDict [(''url'', PStr ''http://host/a.png''), (''start_frame'', PInt 0),
            (''strength'', PNone)]"

definition null_strength_job :: pyval where
  "null_strength_job =
     job_of [(''prompt'', PStr ''a cat''),
             (''conditioning_images'', PList [entry_a, entry_null_strength])]"

section \<open>Basic facts\<close>

lemma bind_exc_simps [simp]:
  "bind_exc (Inl e) f = Raise e" "bind_exc (Inr v) f = f v"
  by (simp_all add: bind_exc_def)

lemma bind_sum_simps [simp]:
  "bind_sum (Inl e) g = Inl e" "bind_sum (Inr v) g = g v"
  by (simp_all add: bind_sum_def)

lemma bind_flow_simps [simp]:
  "bind_flow (Raise e) h = Raise e" "bind_flow (Return r) h = Return r"
  "bind_flow (Normal v) h = h v"
  by (simp_all add: bind_flow_def)

lemma error_result_eq [simp]: "error_result a = error_result b \<longleftrightarrow> a = b"
  by (simp add: error_result_def)

lemma error_not_video [simp]:
  "error_result a \<noteq> video_result b" "video_result b \<noteq> error_result a"
  by (simp_all add: error_result_def video_result_def)

text \<open>What lines 23 to 39 do once \<^verbatim>\<open>job.get('input', {})\<close> has produced a dict.\<close>

lemma read_inputs_dict:
  assumes "py_get job ''input'' (PDict []) = Inr (PDict ikvs)"
  shows "read_inputs w job =
    (if \<not> truthy (dict_get ikvs ''prompt'' PNone)
     then Return (error_result ''Prompt is a required input.'')
     else if \<not> truthy (dict_get ikvs ''conditioning_images'' (PList []))
     then Return (error_result
            ''At least one conditioning image (first frame) is required for image-to-video.'')
     else Normal \<lparr>prompt = dict_get ikvs ''prompt'' PNone,
            negative_prompt = dict_get ikvs ''negative_prompt'' (PStr default_negative_prompt),
            height = dict_get ikvs ''height'' (PInt DEFAULT_HEIGHT),
            width = dict_get ikvs ''width'' (PInt DEFAULT_WIDTH),
            num_frames = dict_get ikvs ''num_frames'' (PInt DEFAULT_NUM_FRAMES),
            frame_rate = dict_get ikvs ''frame_rate'' (PInt DEFAULT_FRAME_RATE),
            seed = dict_get ikvs ''seed'' (PInt (randint w 0 (2 ^ 32 - 1))),
            conditioning_images_input = dict_get ikvs ''conditioning_images'' (PList [])\<rparr>)"
  using assms by (simp add: read_inputs_def)

text \<open>The loop body and the loop.\<close>

lemma process_entry_Normal:
  assumes "process_entry w e = Normal (u, n, x)"
  shows "\<exists>kvs. e = PDict kvs \<and> u = dict_get kvs ''url'' PNone \<and> truthy u
           \<and> dict_get kvs ''start_frame'' PNone \<noteq> PNone
           \<and> py_int w (dict_get kvs ''start_frame'' PNone) = Inr n
           \<and> py_float w (dict_get kvs ''strength'' (PFloat float_1_0)) = Inr x"
proof (cases e)
  case (PDict kvs)
  with assms show ?thesis
    by (auto simp: process_entry_def bind_exc_def split: if_splits sum.splits)
qed (use assms in \<open>simp_all add: process_entry_def\<close>)

lemma process_entry_Return:
  assumes "process_entry w e = Return r"
  shows "r = error_result missing_pair_message"
proof (cases e)
  case (PDict kvs)
  with assms show ?thesis
    by (auto simp: process_entry_def bind_exc_def split: if_splits sum.splits)
qed (use assms in \<open>simp_all add: process_entry_def\<close>)

lemma process_images_Return:
  "process_images w es acc = Return r \<Longrightarrow> r = error_result missing_pair_message"
proof (induction es arbitrary: acc)
  case Nil
  then show ?case by simp
next
  case (Cons e es)
  obtain ps ns xs where acc: "acc = (ps, ns, xs)" by (cases acc) auto
  show ?case
  proof (cases "process_entry w e")
    case (Normal t)
    with Cons acc show ?thesis by (cases t) auto
  next
    case (Return r')
    with Cons.prems acc show ?thesis by (auto dest: process_entry_Return)
  next
    case (Raise x)
    with Cons.prems acc show ?thesis by simp
  qed
qed

lemma process_images_Normal:
  "process_images w es (ps, ns, xs) = Normal (ps', ns', xs') \<Longrightarrow>
   \<exists>us ms ys. ps' = ps @ us \<and> ns' = ns @ ms \<and> xs' = xs @ ys
     \<and> length us = length es \<and> length ms = length es \<and> length ys = length es
     \<and> map (process_entry w) es = map Normal (zip us (zip ms ys))"
proof (induction es arbitrary: ps ns xs)
  case Nil
  then show ?case by simp
next
  case (Cons e es)
  show ?case
  proof (cases "process_entry w e")
    case (Normal t)
    obtain u n x where t: "t = (u, n, x)" by (cases t) auto
    from Cons.prems Normal t
    have "process_images w es (ps @ [u], ns @ [n], xs @ [x]) = Normal (ps', ns', xs')"
      by simp
    from Cons.IH [OF this] obtain us ms ys where
      "ps' = (ps @ [u]) @ us" "ns' = (ns @ [n]) @ ms" "xs' = (xs @ [x]) @ ys"
      "length us = length es" "length ms = length es" "length ys = length es"
      "map (process_entry w) es = map Normal (zip us (zip ms ys))"
      by blast
    with Normal t show ?thesis
      by (intro exI [of _ "u # us"] exI [of _ "n # ms"] exI [of _ "x # ys"]) simp
  next
    case (Return r')
    with Cons.prems show ?thesis by simp
  next
    case (Raise x)
    with Cons.prems show ?thesis by simp
  qed
qed

lemma iter_of_truthy:
  assumes "truthy v" and "py_iter v = Inr es"
  shows "es \<noteq> []"
  using assms by (cases v) auto

lemma iter_processed_is_list:
  assumes "truthy v" and "py_iter v = Inr es" and "process_images w es acc = Normal r"
  shows "v = PList es"
proof (cases v)
  case (PStr s)
  with assms(1) obtain c cs where "s = c # cs" by (cases s) auto
  with PStr assms(2) have "es = PStr [c] # map (\<lambda>c. PStr [c]) cs" by auto
  with assms(3) show ?thesis by (cases acc) (simp add: process_entry_def)
next
  case (PDict kvs)
  with assms(1) obtain kv kvs' where "kvs = kv # kvs'" by (cases kvs) auto
  with PDict assms(2) have "es = PStr (fst kv) # map (\<lambda>kv. PStr (fst kv)) kvs'" by auto
  with assms(3) show ?thesis by (cases acc) (simp add: process_entry_def)
qed (use assms in auto)

text \<open>Lines 23 to 78 as a whole.\<close>

lemma read_inputs_Normal:
  assumes "read_inputs w job = Normal i"
  obtains ikvs where "py_get job ''input'' (PDict []) = Inr (PDict ikvs)"
    and "truthy (dict_get ikvs ''prompt'' PNone)"
    and "truthy (dict_get ikvs ''conditioning_images'' (PList []))"
    and "i = \<lparr>prompt = dict_get ikvs ''prompt'' PNone,
            negative_prompt = dict_get ikvs ''negative_prompt'' (PStr default_negative_prompt),
            height = dict_get ikvs ''height'' (PInt DEFAULT_HEIGHT),
            width = dict_get ikvs ''width'' (PInt DEFAULT_WIDTH),
            num_frames = dict_get ikvs ''num_frames'' (PInt DEFAULT_NUM_FRAMES),
            frame_rate = dict_get ikvs ''frame_rate'' (PInt DEFAULT_FRAME_RATE),
            seed = dict_get ikvs ''seed'' (PInt (randint w 0 (2 ^ 32 - 1))),
            conditioning_images_input = dict_get ikvs ''conditioning_images'' (PList [])\<rparr>"
proof -
  from assms obtain job_input where ji: "py_get job ''input'' (PDict []) = Inr job_input"
    by (cases "py_get job ''input'' (PDict [])") (simp_all add: read_inputs_def)
  from assms ji obtain ikvs where "job_input = PDict ikvs"
    by (cases job_input) (simp_all add: read_inputs_def)
  with ji have d: "py_get job ''input'' (PDict []) = Inr (PDict ikvs)" by simp
  from assms show ?thesis
    unfolding read_inputs_dict [OF d]
    by (intro that [OF d]) (simp_all split: if_splits)
qed

lemma read_inputs_Return:
  assumes "read_inputs w job = Return r"
  shows "r = error_result ''Prompt is a required input.'' \<or>
         r = error_result
           ''At least one conditioning image (first frame) is required for image-to-video.''"
proof -
  from assms obtain job_input where ji: "py_get job ''input'' (PDict []) = Inr job_input"
    by (cases "py_get job ''input'' (PDict [])") (simp_all add: read_inputs_def)
  from assms ji obtain ikvs where "job_input = PDict ikvs"
    by (cases job_input) (simp_all add: read_inputs_def)
  with ji have d: "py_get job ''input'' (PDict []) = Inr (PDict ikvs)" by simp
  from assms show ?thesis
    unfolding read_inputs_dict [OF d] by (auto split: if_splits)
qed

lemma prepare_Normal:
  assumes "prepare w fs job = Normal p"
  obtains ikvs entries where "py_get job ''input'' (PDict []) = Inr (PDict ikvs)"
    and "truthy (dict_get ikvs ''prompt'' PNone)"
    and "dict_get ikvs ''conditioning_images'' (PList []) = PList entries"
    and "entries \<noteq> []"
    and "mkdtemp w ''ltx_video_output_'' fs = Inr (job_output_dir p, fs1 p)"
    and "inp p = \<lparr>prompt = dict_get ikvs ''prompt'' PNone,
            negative_prompt = dict_get ikvs ''negative_prompt'' (PStr default_negative_prompt),
            height = dict_get ikvs ''height'' (PInt DEFAULT_HEIGHT),
            width = dict_get ikvs ''width'' (PInt DEFAULT_WIDTH),
            num_frames = dict_get ikvs ''num_frames'' (PInt DEFAULT_NUM_FRAMES),
            frame_rate = dict_get ikvs ''frame_rate'' (PInt DEFAULT_FRAME_RATE),
            seed = dict_get ikvs ''seed'' (PInt (randint w 0 (2 ^ 32 - 1))),
            conditioning_images_input = PList entries\<rparr>"
    and "process_images w entries ([], [], []) =
           Normal (conditioning_media_paths p, conditioning_start_frames p,
                   conditioning_strengths p)"
proof -
  from assms obtain i where i: "read_inputs w job = Normal i"
    by (cases "read_inputs w job") (simp_all add: prepare_def)
  from assms i obtain d fs' where m: "mkdtemp w ''ltx_video_output_'' fs = Inr (d, fs')"
    by (cases "mkdtemp w ''ltx_video_output_'' fs") (auto simp: prepare_def)
  from assms i m obtain es where es: "py_iter (conditioning_images_input i) = Inr es"
    by (cases "py_iter (conditioning_images_input i)") (simp_all add: prepare_def)
  from assms i m es obtain ps ns xs where l: "process_images w es ([], [], []) = Normal (ps, ns, xs)"
    by (cases "process_images w es ([], [], [])") (auto simp: prepare_def)
  from assms i m es l have p: "p = \<lparr>inp = i, job_output_dir = d, conditioning_media_paths = ps,
      conditioning_start_frames = ns, conditioning_strengths = xs, fs1 = fs'\<rparr>"
    by (simp add: prepare_def split: if_splits)
  from i obtain ikvs where ji: "py_get job ''input'' (PDict []) = Inr (PDict ikvs)"
    and tp: "truthy (dict_get ikvs ''prompt'' PNone)"
    and tc: "truthy (dict_get ikvs ''conditioning_images'' (PList []))"
    and ieq: "i = \<lparr>prompt = dict_get ikvs ''prompt'' PNone,
            negative_prompt = dict_get ikvs ''negative_prompt'' (PStr default_negative_prompt),
            height = dict_get ikvs ''height'' (PInt DEFAULT_HEIGHT),
            width = dict_get ikvs ''width'' (PInt DEFAULT_WIDTH),
            num_frames = dict_get ikvs ''num_frames'' (PInt DEFAULT_NUM_FRAMES),
            frame_rate = dict_get ikvs ''frame_rate'' (PInt DEFAULT_FRAME_RATE),
            seed = dict_get ikvs ''seed'' (PInt (randint w 0 (2 ^ 32 - 1))),
            conditioning_images_input = dict_get ikvs ''conditioning_images'' (PList [])\<rparr>"
    by (rule read_inputs_Normal)
  have ci: "conditioning_images_input i = dict_get ikvs ''conditioning_images'' (PList [])"
    by (simp add: ieq)
  from tc es l have cl: "dict_get ikvs ''conditioning_images'' (PList []) = PList es"
    unfolding ci [symmetric] by (rule iter_processed_is_list)
  from tc cl have ne: "es \<noteq> []" by simp
  show ?thesis
    by (rule that [OF ji tp cl ne]) (simp_all add: p m l ieq cl)
qed

lemma prepare_Return:
  assumes "prepare w fs job = Return r"
  shows "r = error_result ''Prompt is a required input.'' \<or>
         r = error_result
           ''At least one conditioning image (first frame) is required for image-to-video.'' \<or>
         r = error_result missing_pair_message"
proof (cases "read_inputs w job")
  case (Normal i)
  from assms Normal obtain d fs' where m: "mkdtemp w ''ltx_video_output_'' fs = Inr (d, fs')"
    by (cases "mkdtemp w ''ltx_video_output_'' fs") (auto simp: prepare_def)
  from assms Normal m obtain es where es: "py_iter (conditioning_images_input i) = Inr es"
    by (cases "py_iter (conditioning_images_input i)") (simp_all add: prepare_def)
  from Normal obtain ikvs where
    tc: "truthy (dict_get ikvs ''conditioning_images'' (PList []))"
    and ci: "conditioning_images_input i = dict_get ikvs ''conditioning_images'' (PList [])"
    by (rule read_inputs_Normal) simp
  from tc es have ne: "es \<noteq> []" unfolding ci [symmetric] by (rule iter_of_truthy)
  show ?thesis
  proof (cases "process_images w es ([], [], [])")
    case (Normal t)
    obtain ps ns xs where t: "t = (ps, ns, xs)" by (cases t) auto
    from Normal t have "length ps = length es"
      by (auto dest: process_images_Normal)
    with ne have "ps \<noteq> []" by auto
    with assms \<open>read_inputs w job = Normal i\<close> m es Normal t show ?thesis
      by (simp add: prepare_def)
  next
    case (Return r')
    with assms \<open>read_inputs w job = Normal i\<close> m es have "r = r'" by (simp add: prepare_def)
    with Return show ?thesis by (auto dest: process_images_Return)
  next
    case (Raise e)
    with assms \<open>read_inputs w job = Normal i\<close> m es show ?thesis by (simp add: prepare_def)
  qed
next
  case (Return r')
  with assms have "r = r'" by (simp add: prepare_def)
  with Return show ?thesis by (auto dest: read_inputs_Return)
next
  case (Raise e)
  with assms show ?thesis by (simp add: prepare_def)
qed

text \<open>The \<^verbatim>\<open>try\<close> block and the calls of \<^verbatim>\<open>infer\<close>.\<close>

lemma run_inference_calls:
  assumes "args \<in> set (infer_calls (run_inference w p))"
  shows "\<exists>dev. get_device w = Inr dev \<and> infer_kwargs w p dev = Inr args"
  using assms by (auto simp: run_inference_def split: sum.splits)

lemma handler_calls:
  assumes "args \<in> set (infer_calls (handler w fs job))"
  obtains p dev where "prepare w fs job = Normal p" and "get_device w = Inr dev"
    and "infer_kwargs w p dev = Inr args"
proof (cases "prepare w fs job")
  case (Normal p)
  with assms have "args \<in> set (infer_calls (run_inference w p))" by (simp add: handler_def)
  with Normal that show ?thesis by (auto dest: run_inference_calls)
qed (use assms in \<open>simp_all add: handler_def\<close>)

lemma infer_kwargs_Inr:
  assumes "infer_kwargs w p dev = Inr args"
  shows "py_int w (seed (inp p)) = Inr (kw_seed args)"
    and "py_int w (height (inp p)) = Inr (kw_height args)"
    and "py_int w (width (inp p)) = Inr (kw_width args)"
    and "py_int w (num_frames (inp p)) = Inr (kw_num_frames args)"
    and "py_int w (frame_rate (inp p)) = Inr (kw_frame_rate args)"
    and "kw_output_path args = job_output_dir p"
    and "kw_pipeline_config args = DEFAULT_MODEL_CONFIG"
    and "kw_image_cond_noise_scale args = float_0_15"
    and "kw_prompt args = prompt (inp p)"
    and "kw_negative_prompt args = negative_prompt (inp p)"
    and "kw_offload_to_cpu args = False"
    and "kw_input_media_path args = PNone"
    and "kw_conditioning_media_paths args = conditioning_media_paths p"
    and "kw_conditioning_strengths args = conditioning_strengths p"
    and "kw_conditioning_start_frames args = conditioning_start_frames p"
    and "kw_device args = dev"
  using assms by (auto simp: infer_kwargs_def bind_sum_def split: sum.splits)

lemma processed_entries:
  assumes "process_images w es ([], [], []) = Normal (us, ms, ys)"
  shows "map entry_url es = map Inr us"
    and "map (entry_start_frame w) es = map Inr ms"
    and "map (entry_strength w) es = map Inr ys"
proof -
  from process_images_Normal [OF assms]
  have len: "length us = length es" "length ms = length es" "length ys = length es"
    and m: "map (process_entry w) es = map Normal (zip us (zip ms ys))"
    by auto
  have nth: "process_entry w (es ! k) = Normal (us ! k, ms ! k, ys ! k)" if "k < length es" for k
  proof -
    from that have "process_entry w (es ! k) = map (process_entry w) es ! k" by simp
    also from that len have "\<dots> = Normal (us ! k, ms ! k, ys ! k)" unfolding m by simp
    finally show ?thesis .
  qed
  show "map entry_url es = map Inr us"
    using len by (intro nth_equalityI) (auto dest!: nth [THEN process_entry_Normal] simp: entry_url_def)
  show "map (entry_start_frame w) es = map Inr ms"
    using len by (intro nth_equalityI)
      (auto dest!: nth [THEN process_entry_Normal] simp: entry_start_frame_def)
  show "map (entry_strength w) es = map Inr ys"
    using len by (intro nth_equalityI)
      (auto dest!: nth [THEN process_entry_Normal] simp: entry_strength_def)
qed

text \<open>Unfolding the model and the fixtures, for evaluation on concrete jobs.\<close>

lemmas fixture_defs = stub_world_def silent_world_def mixed_world_def failing_world_def
  no_tmp_world_def empty_fs_def entry_a_def entry_b_def job_of_def good_job_def
  no_prompt_job_def no_images_job_def entry_list_frame_def entry_no_frame_def
  uncoercible_job_def late_defect_job_def defect_job_def custom_job_def
  exiting_world_def entry_null_strength_def null_strength_job_def

lemmas model_defs = handler_def prepare_def read_inputs_def process_entry_def
  run_inference_def infer_kwargs_def locate_output_def glob_def endswith_def
  except_handler_def dict_get_def
  DEFAULT_HEIGHT_def DEFAULT_WIDTH_def DEFAULT_NUM_FRAMES_def DEFAULT_FRAME_RATE_def
  DEFAULT_MODEL_CONFIG_def float_1_0_def

lemma good_prepare: "prepare stub_world empty_fs good_job = Normal good_prepared"
  by (simp add: fixture_defs model_defs good_prepared_def good_inputs_def)

section \<open>A missing prompt\<close>

text \<open>
  Claim C3. When the \<^verbatim>\<open>input\<close> mapping of the job (the empty mapping when the job has none)
  has no \<^verbatim>\<open>prompt\<close> key, the handler returns exactly
  \<^verbatim>\<open>{"error": "Prompt is a required input."}\<close> and makes no call of \<^verbatim>\<open>infer\<close>.
\<close>

theorem missing_prompt_rejected:
  assumes "py_get job ''input'' (PDict []) = Inr (PDict ikvs)"
    and "map_of ikvs ''prompt'' = None"
  shows "handler w fs job =
    \<lparr>outcome = Inr (error_result ''Prompt is a required input.''), infer_calls = []\<rparr>"
  using assms by (simp add: handler_def prepare_def read_inputs_dict dict_get_def)

theorem missing_prompt_rejected_witness:
  "py_get (job_of [(''conditioning_images'', PList [entry_a])]) ''input'' (PDict [])
     = Inr (PDict [(''conditioning_images'', PList [entry_a])])
   \<and> map_of [(''conditioning_images'', PList [entry_a])] ''prompt'' = None
   \<and> handler stub_world empty_fs (job_of [(''conditioning_images'', PList [entry_a])]) =
     \<lparr>outcome = Inr (error_result ''Prompt is a required input.''), infer_calls = []\<rparr>"
  using missing_prompt_rejected [of "job_of [(''conditioning_images'', PList [entry_a])]"
      "[(''conditioning_images'', PList [entry_a])]" stub_world empty_fs]
  by (simp add: job_of_def dict_get_def)

section \<open>The arguments of the call of infer\<close>

text \<open>
  Claim C8. Every call of \<^verbatim>\<open>infer\<close> the handler makes (it makes at most one) passes the
  pipeline configuration \<^verbatim>\<open>configs/ltxv-13b-0.9.7-distilled.yaml\<close>, the noise scale
  \<^verbatim>\<open>0.15\<close>, \<^verbatim>\<open>offload_to_cpu=False\<close>, \<^verbatim>\<open>input_media_path=None\<close>, and three lists that
  hold, entry by entry and in the order of the input list \<^verbatim>\<open>conditioning_images\<close>, the url,
  \<^verbatim>\<open>float\<close> of the strength and \<^verbatim>\<open>int\<close> of the start frame of each conditioning entry; so
  the three lists have the length of the input list.
\<close>

theorem infer_call_arguments:
  assumes "args \<in> set (infer_calls (handler w fs job))"
  shows "infer_calls (handler w fs job) = [args]
    \<and> kw_pipeline_config args = ''configs/ltxv-13b-0.9.7-distilled.yaml''
    \<and> kw_image_cond_noise_scale args = float_0_15
    \<and> kw_offload_to_cpu args = False
    \<and> kw_input_media_path args = PNone
    \<and> (\<exists>ikvs entries.
          py_get job ''input'' (PDict []) = Inr (PDict ikvs)
        \<and> py_get (PDict ikvs) ''conditioning_images'' (PList []) = Inr (PList entries)
        \<and> map entry_url entries = map Inr (kw_conditioning_media_paths args)
        \<and> map (entry_strength w) entries = map Inr (kw_conditioning_strengths args)
        \<and> map (entry_start_frame w) entries = map Inr (kw_conditioning_start_frames args))"
proof -
  from assms obtain p dev where p: "prepare w fs job = Normal p"
    and dev: "get_device w = Inr dev" and kw: "infer_kwargs w p dev = Inr args"
    by (rule handler_calls)
  from p dev kw have once: "infer_calls (handler w fs job) = [args]"
    by (simp add: handler_def run_inference_def split: sum.splits)
  from p obtain ikvs entries where ji: "py_get job ''input'' (PDict []) = Inr (PDict ikvs)"
    and ci: "dict_get ikvs ''conditioning_images'' (PList []) = PList entries"
    and loop: "process_images w entries ([], [], []) =
           Normal (conditioning_media_paths p, conditioning_start_frames p,
                   conditioning_strengths p)"
    by (rule prepare_Normal)
  note lists = processed_entries [OF loop]
  show ?thesis
    using once ji ci lists infer_kwargs_Inr [OF kw]
    by (auto simp: DEFAULT_MODEL_CONFIG_def)
qed

theorem infer_call_arguments_witness:
  "good_args \<in> set (infer_calls (handler stub_world empty_fs good_job))
   \<and> infer_calls (handler stub_world empty_fs good_job) = [good_args]
   \<and> kw_pipeline_config good_args = ''configs/ltxv-13b-0.9.7-distilled.yaml''
   \<and> kw_image_cond_noise_scale good_args = float_0_15
   \<and> kw_offload_to_cpu good_args = False
   \<and> kw_input_media_path good_args = PNone
   \<and> kw_conditioning_media_paths good_args = [PStr ''http://host/a.png'', PStr ''http://host/b.png'']
   \<and> kw_conditioning_strengths good_args = [Finite 1, Finite (1 / 2)]
   \<and> kw_conditioning_start_frames good_args = [0, 60]"
proof -
  have "handler stub_world empty_fs good_job = 
    \<lparr>outcome = Inr (video_result ''/tmp/ltx_video_output_0/video_0.mp4''), infer_calls = [good_args]\<rparr>"
    by (simp add: fixture_defs model_defs good_args_def video_result_def)
  then have h: "good_args \<in> set (infer_calls (handler stub_world empty_fs good_job))" by simp
  from infer_call_arguments [OF h] h show ?thesis by (simp add: good_args_def)
qed

section \<open>The check after the loop\<close>

text \<open>
  Claim C9. The handler never returns
  \<^verbatim>\<open>{"error": "No valid conditioning images provided or processed."}\<close>: when the loop falls
  through, it has appended one path for each entry of a list that the earlier check found
  non-empty, so the branch of line 78 is dead.
\<close>

theorem no_valid_images_unreachable:
  "outcome (handler w fs job) \<noteq>
     Inr (error_result ''No valid conditioning images provided or processed.'')"
proof (cases "prepare w fs job")
  case (Normal p)
  have e: "except_handler e \<noteq>
     Inr (error_result ''No valid conditioning images provided or processed.'')" for e
    by (cases e) (simp_all add: except_handler_def)
  have l: "locate_output f d \<noteq>
     error_result ''No valid conditioning images provided or processed.''" for f d
    by (simp add: locate_output_def split: list.splits)
  from Normal show ?thesis
    by (simp add: handler_def run_inference_def e l split: sum.splits)
next
  case (Return r)
  from prepare_Return [OF this] Return show ?thesis
    by (auto simp: handler_def missing_pair_message_def)
next
  case (Raise e)
  then show ?thesis by (simp add: handler_def)
qed

section \<open>Boundary values of a conditioning entry\<close>

text \<open>
  Claim C10. An entry whose \<^verbatim>\<open>start_frame\<close> is \<open>0\<close> and whose url is a non-empty string
  is not rejected by the check of line 69, and with no \<^verbatim>\<open>strength\<close> key the loop body
  yields the url, the start frame \<open>0\<close> and the strength \<^verbatim>\<open>1.0\<close>; an entry whose url is the
  empty string is rejected with the error that names the missing pair.
\<close>

theorem entry_boundary_values:
  "(map_of kvs ''url'' = Some (PStr u) \<and> u \<noteq> [] \<and> map_of kvs ''start_frame'' = Some (PInt 0)
      \<and> map_of kvs ''strength'' = None
     \<longrightarrow> process_entry w (PDict kvs) = Normal (PStr u, 0, float_1_0))
   \<and> (map_of kvs ''url'' = Some (PStr u) \<and> u \<noteq> [] \<and> map_of kvs ''start_frame'' = Some (PInt 0)
     \<longrightarrow> process_entry w (PDict kvs) \<noteq> Return (error_result missing_pair_message))
   \<and> (map_of kvs ''url'' = Some (PStr [])
     \<longrightarrow> process_entry w (PDict kvs) = Return (error_result missing_pair_message))"
  by (auto simp: process_entry_def dict_get_def float_1_0_def bind_exc_def split: sum.splits)

theorem entry_boundary_values_witness:
  "process_entry stub_world entry_a = Normal (PStr ''http://host/a.png'', 0, float_1_0)
   \<and> process_entry stub_world entry_a \<noteq> Return (error_result missing_pair_message)
   \<and> process_entry stub_world (PDict [(''url'', PStr []), (''start_frame'', PInt 0)])
       = Return (error_result missing_pair_message)"
  using entry_boundary_values [of "[(''url'', PStr ''http://host/a.png''), (''start_frame'', PInt 0)]"
      "''http://host/a.png''" stub_world]
    entry_boundary_values [of "[(''url'', PStr []), (''start_frame'', PInt 0)]" "[]" stub_world]
  by (simp add: entry_a_def)

section \<open>Defaults\<close>

text \<open>
  Claim C7. For a job that passes the lines before the \<^verbatim>\<open>try\<close> block, each of
  \<^verbatim>\<open>height\<close>, \<^verbatim>\<open>width\<close>, \<^verbatim>\<open>num_frames\<close>, \<^verbatim>\<open>frame_rate\<close>, \<^verbatim>\<open>negative_prompt\<close> and
  \<^verbatim>\<open>seed\<close> holds its default when the key is absent from the input (704, 1216, 121, 30, the
  negative-prompt text, and for the seed the value of \<^verbatim>\<open>random.randint(0, 2**32 - 1)\<close>, which
  by the contract of \<^verbatim>\<open>randint\<close> lies between 0 and \<open>2 ^ 32 - 1\<close>), and the supplied value
  when the key is present. In a call of \<^verbatim>\<open>infer\<close> the numeric fields arrive through
  \<^verbatim>\<open>int\<close>, which leaves an integer as it is, and the negative prompt arrives unchanged.
\<close>

theorem defaults_filled:
  assumes "prepare w fs job = Normal p"
    and "py_get job ''input'' (PDict []) = Inr (PDict ikvs)"
  shows "height (inp p) = (case map_of ikvs ''height'' of None \<Rightarrow> PInt 704 | Some v \<Rightarrow> v)
    \<and> width (inp p) = (case map_of ikvs ''width'' of None \<Rightarrow> PInt 1216 | Some v \<Rightarrow> v)
    \<and> num_frames (inp p) = (case map_of ikvs ''num_frames'' of None \<Rightarrow> PInt 121 | Some v \<Rightarrow> v)
    \<and> frame_rate (inp p) = (case map_of ikvs ''frame_rate'' of None \<Rightarrow> PInt 30 | Some v \<Rightarrow> v)
    \<and> negative_prompt (inp p) =
        (case map_of ikvs ''negative_prompt'' of
           None \<Rightarrow> PStr ''worst quality, inconsistent motion, blurry, jittery, distorted''
         | Some v \<Rightarrow> v)
    \<and> seed (inp p) =
        (case map_of ikvs ''seed'' of None \<Rightarrow> PInt (randint w 0 4294967295) | Some v \<Rightarrow> v)
    \<and> (randint_contract w \<and> map_of ikvs ''seed'' = None
         \<longrightarrow> (\<exists>n. seed (inp p) = PInt n \<and> 0 \<le> n \<and> n \<le> 2 ^ 32 - 1))
    \<and> (\<forall>args \<in> set (infer_calls (handler w fs job)).
           passed_int w ikvs ''height'' 704 (kw_height args)
         \<and> passed_int w ikvs ''width'' 1216 (kw_width args)
         \<and> passed_int w ikvs ''num_frames'' 121 (kw_num_frames args)
         \<and> passed_int w ikvs ''frame_rate'' 30 (kw_frame_rate args)
         \<and> passed_int w ikvs ''seed'' (randint w 0 4294967295) (kw_seed args)
         \<and> kw_negative_prompt args = negative_prompt (inp p))"
proof -
  from assms(1) obtain ikvs' where "py_get job ''input'' (PDict []) = Inr (PDict ikvs')"
    and i: "inp p = \<lparr>prompt = dict_get ikvs' ''prompt'' PNone,
            negative_prompt = dict_get ikvs' ''negative_prompt'' (PStr default_negative_prompt),
            height = dict_get ikvs' ''height'' (PInt DEFAULT_HEIGHT),
            width = dict_get ikvs' ''width'' (PInt DEFAULT_WIDTH),
            num_frames = dict_get ikvs' ''num_frames'' (PInt DEFAULT_NUM_FRAMES),
            frame_rate = dict_get ikvs' ''frame_rate'' (PInt DEFAULT_FRAME_RATE),
            seed = dict_get ikvs' ''seed'' (PInt (randint w 0 (2 ^ 32 - 1))),
            conditioning_images_input = dict_get ikvs' ''conditioning_images'' (PList [])\<rparr>"
    by (rule prepare_Normal) simp
  with assms(2) have [simp]: "ikvs' = ikvs" by simp
  have locals: "height (inp p) = (case map_of ikvs ''height'' of None \<Rightarrow> PInt 704 | Some v \<Rightarrow> v)"
    "width (inp p) = (case map_of ikvs ''width'' of None \<Rightarrow> PInt 1216 | Some v \<Rightarrow> v)"
    "num_frames (inp p) = (case map_of ikvs ''num_frames'' of None \<Rightarrow> PInt 121 | Some v \<Rightarrow> v)"
    "frame_rate (inp p) = (case map_of ikvs ''frame_rate'' of None \<Rightarrow> PInt 30 | Some v \<Rightarrow> v)"
    "negative_prompt (inp p) =
        (case map_of ikvs ''negative_prompt'' of
           None \<Rightarrow> PStr ''worst quality, inconsistent motion, blurry, jittery, distorted''
         | Some v \<Rightarrow> v)"
    "seed (inp p) =
        (case map_of ikvs ''seed'' of None \<Rightarrow> PInt (randint w 0 4294967295) | Some v \<Rightarrow> v)"
    by (simp_all add: i dict_get_def DEFAULT_HEIGHT_def DEFAULT_WIDTH_def
        DEFAULT_NUM_FRAMES_def DEFAULT_FRAME_RATE_def default_negative_prompt_def)
  have range: "\<exists>n. seed (inp p) = PInt n \<and> 0 \<le> n \<and> n \<le> 2 ^ 32 - 1"
    if "randint_contract w" "map_of ikvs ''seed'' = None"
  proof -
    from that(1) have "0 \<le> randint w 0 4294967295 \<and> randint w 0 4294967295 \<le> 4294967295"
      unfolding randint_contract_def by simp
    with that(2) show ?thesis by (simp add: locals)
  qed
  have passed: "passed_int w ikvs ''height'' 704 (kw_height args)
         \<and> passed_int w ikvs ''width'' 1216 (kw_width args)
         \<and> passed_int w ikvs ''num_frames'' 121 (kw_num_frames args)
         \<and> passed_int w ikvs ''frame_rate'' 30 (kw_frame_rate args)
         \<and> passed_int w ikvs ''seed'' (randint w 0 4294967295) (kw_seed args)
         \<and> kw_negative_prompt args = negative_prompt (inp p)"
    if "args \<in> set (infer_calls (handler w fs job))" for args
  proof -
    from that obtain p' dev where "prepare w fs job = Normal p'"
      and kw: "infer_kwargs w p' dev = Inr args"
      by (rule handler_calls)
    with assms(1) have kw: "infer_kwargs w p dev = Inr args" by simp
    from infer_kwargs_Inr [OF kw] show ?thesis
      by (auto simp: passed_int_def locals split: option.splits)
  qed
  from locals range passed show ?thesis by blast
qed

theorem defaults_filled_witness:
  "prepare stub_world empty_fs good_job = Normal good_prepared
   \<and> height (inp good_prepared) = PInt 704 \<and> width (inp good_prepared) = PInt 1216
   \<and> num_frames (inp good_prepared) = PInt 121 \<and> frame_rate (inp good_prepared) = PInt 30
   \<and> negative_prompt (inp good_prepared) =
       PStr ''worst quality, inconsistent motion, blurry, jittery, distorted''
   \<and> seed (inp good_prepared) = PInt 4294967295
   \<and> randint_contract stub_world
   \<and> (\<exists>n. seed (inp good_prepared) = PInt n \<and> 0 \<le> n \<and> n \<le> 2 ^ 32 - 1)
   \<and> prepare stub_world empty_fs custom_job = Normal custom_prepared
   \<and> height (inp custom_prepared) = PInt 512 \<and> width (inp custom_prepared) = PInt 768
   \<and> num_frames (inp custom_prepared) = PInt 25 \<and> frame_rate (inp custom_prepared) = PInt 24
   \<and> negative_prompt (inp custom_prepared) = PStr ''blurry''
   \<and> seed (inp custom_prepared) = PInt 7"
proof -
  have g: "prepare stub_world empty_fs good_job = Normal good_prepared"
    by (simp add: fixture_defs model_defs good_prepared_def good_inputs_def)
  have c: "prepare stub_world empty_fs custom_job = Normal custom_prepared"
    by (simp add: fixture_defs model_defs custom_prepared_def)
  have r: "randint_contract stub_world"
    by (simp add: randint_contract_def stub_world_def)
  have gi: "py_get good_job ''input'' (PDict []) =
      Inr (PDict [(''prompt'', PStr ''a cat''), (''conditioning_images'', PList [entry_a, entry_b])])"
    by (simp add: good_job_def job_of_def dict_get_def)
  have ci: "py_get custom_job ''input'' (PDict []) =
      Inr (PDict [(''prompt'', PStr ''a dog''), (''negative_prompt'', PStr ''blurry''),
             (''height'', PInt 512), (''width'', PInt 768), (''num_frames'', PInt 25),
             (''frame_rate'', PInt 24), (''seed'', PInt 7),
             (''conditioning_images'', PList [entry_a])])"
    by (simp add: custom_job_def job_of_def dict_get_def)
  from defaults_filled [OF g gi] defaults_filled [OF c ci] g c r show ?thesis
    by (simp add: stub_world_def)
qed

section \<open>A failing inference\<close>




section \<open>Locating the output\<close>

text \<open>
  The first element of the concatenated glob results, said with \<open>find\<close>.
\<close>

lemma hd_filter_find:
  "(case filter P xs of [] \<Rightarrow> a | x # _ \<Rightarrow> f x) = (case find P xs of None \<Rightarrow> a | Some x \<Rightarrow> f x)"
  by (induction xs) auto

lemma locate_output_find:
  "locate_output fs d =
     (case fs d of
        None \<Rightarrow> error_result ''Inference completed but no output video/image file found.''
      | Some names \<Rightarrow>
          (case find (\<lambda>n. endswith n ''.mp4'') names of
             Some n \<Rightarrow> video_result (d @ ''/'' @ n)
           | None \<Rightarrow>
               (case find (\<lambda>n. endswith n ''.png'') names of
                  Some n \<Rightarrow> video_result (d @ ''/'' @ n)
                | None \<Rightarrow>
                    error_result ''Inference completed but no output video/image file found.'')))"
proof (cases "fs d")
  case None
  then show ?thesis by (simp add: locate_output_def glob_def)
next
  case (Some names)
  show ?thesis
  proof (cases "filter (\<lambda>n. endswith n ''.mp4'') names")
    case Nil
    then have "find (\<lambda>n. endswith n ''.mp4'') names = None"
      by (simp add: find_None_iff filter_empty_conv)
    with Some Nil show ?thesis
      using hd_filter_find [of "error_result ''Inference completed but no output video/image file found.''"
          "\<lambda>n. video_result (d @ ''/'' @ n)" "\<lambda>n. endswith n ''.png''" names]
      by (simp add: locate_output_def glob_def split: list.splits option.splits)
  next
    case (Cons n ns)
    with hd_filter_find [of "None" Some "\<lambda>n. endswith n ''.mp4''" names]
    have "find (\<lambda>n. endswith n ''.mp4'') names = Some n" by (simp split: option.splits)
    with Some Cons show ?thesis by (simp add: locate_output_def glob_def)
  qed
qed

text \<open>
  Claim C2, as amended. After \<^verbatim>\<open>infer\<close> has returned, the handler returns as
  \<^verbatim>\<open>output_video\<close> the path of the first entry of the job output directory, in listing
  order, whose name matches \<^verbatim>\<open>*.mp4\<close>; when no entry matches \<^verbatim>\<open>*.mp4\<close>, the first entry
  in listing order that matches \<^verbatim>\<open>*.png\<close>; and when no entry matches either, exactly
  \<^verbatim>\<open>{"error": "Inference completed but no output video/image file found."}\<close>. Only the
  entries of the directory itself are looked at.
\<close>

theorem output_located:
  assumes "prepare w fs job = Normal p" and "get_device w = Inr dev"
    and "infer_kwargs w p dev = Inr args" and "infer w args (fs1 p) = Inr fs2"
  shows "outcome (handler w fs job) =
     Inr (case fs2 (job_output_dir p) of
        None \<Rightarrow> error_result ''Inference completed but no output video/image file found.''
      | Some names \<Rightarrow>
          (case find (\<lambda>n. endswith n ''.mp4'') names of
             Some n \<Rightarrow> video_result (job_output_dir p @ ''/'' @ n)
           | None \<Rightarrow>
               (case find (\<lambda>n. endswith n ''.png'') names of
                  Some n \<Rightarrow> video_result (job_output_dir p @ ''/'' @ n)
                | None \<Rightarrow>
                    error_result ''Inference completed but no output video/image file found.'')))"
  using assms by (simp add: handler_def run_inference_def locate_output_find)

theorem output_located_witness:
  "prepare stub_world empty_fs good_job = Normal good_prepared
   \<and> get_device stub_world = Inr ''cpu''
   \<and> infer_kwargs stub_world good_prepared ''cpu'' = Inr good_args
   \<and> infer stub_world good_args (fs1 good_prepared)
       = Inr (empty_fs(''/tmp/ltx_video_output_0'' \<mapsto> [''video_0.mp4'']))
   \<and> outcome (handler stub_world empty_fs good_job)
       = Inr (video_result ''/tmp/ltx_video_output_0/video_0.mp4'')
   \<and> prepare silent_world empty_fs good_job = Normal good_prepared
   \<and> infer silent_world good_args (fs1 good_prepared)
       = Inr (empty_fs(''/tmp/ltx_video_output_0'' \<mapsto> []))
   \<and> outcome (handler silent_world empty_fs good_job)
       = Inr (error_result ''Inference completed but no output video/image file found.'')"
proof -
  have g: "prepare stub_world empty_fs good_job = Normal good_prepared"
    by (rule good_prepare)
  have g': "prepare silent_world empty_fs good_job = Normal good_prepared"
    by (simp add: fixture_defs model_defs good_prepared_def good_inputs_def)
  have d: "get_device stub_world = Inr ''cpu''" "get_device silent_world = Inr ''cpu''"
    by (simp_all add: silent_world_def stub_world_def)
  have k: "infer_kwargs stub_world good_prepared ''cpu'' = Inr good_args"
    "infer_kwargs silent_world good_prepared ''cpu'' = Inr good_args"
    by (simp_all add: infer_kwargs_def good_prepared_def good_inputs_def good_args_def
        DEFAULT_MODEL_CONFIG_def)
  have i: "infer stub_world good_args (fs1 good_prepared)
       = Inr (empty_fs(''/tmp/ltx_video_output_0'' \<mapsto> [''video_0.mp4'']))"
    by (simp add: stub_world_def good_args_def good_prepared_def)
  have i': "infer silent_world good_args (fs1 good_prepared)
       = Inr (empty_fs(''/tmp/ltx_video_output_0'' \<mapsto> []))"
    by (simp add: silent_world_def stub_world_def good_prepared_def)
  have o: "outcome (handler stub_world empty_fs good_job)
       = Inr (video_result ''/tmp/ltx_video_output_0/video_0.mp4'')"
    using output_located [OF g d(1) k(1) i]
    by (simp add: good_prepared_def endswith_def)
  have o': "outcome (handler silent_world empty_fs good_job)
       = Inr (error_result ''Inference completed but no output video/image file found.'')"
    using output_located [OF g' d(2) k(2) i']
    by (simp add: good_prepared_def)
  from g g' d k i i' o o' show ?thesis by simp
qed

text \<open>
  The claim as the specification words it (the first match of either pattern in listing
  order) fails when a \<^verbatim>\<open>*.png\<close> entry is listed before a \<^verbatim>\<open>*.mp4\<close> entry: the handler
  returns the \<^verbatim>\<open>*.mp4\<close> entry.
\<close>

theorem first_listed_match_counterexample:
  "infer mixed_world good_args (fs1 good_prepared) = Inr mixed_fs
   \<and> outcome (handler mixed_world empty_fs good_job)
       = Inr (video_result ''/tmp/ltx_video_output_0/b.mp4'')
   \<and> spec_locate_output mixed_fs ''/tmp/ltx_video_output_0''
       = video_result ''/tmp/ltx_video_output_0/a.png''"
proof -
  have "infer mixed_world good_args (fs1 good_prepared) = Inr mixed_fs"
    by (simp add: mixed_world_def stub_world_def good_args_def good_prepared_def mixed_fs_def)
  moreover have "outcome (handler mixed_world empty_fs good_job)
       = Inr (video_result ''/tmp/ltx_video_output_0/b.mp4'')"
    by (simp add: fixture_defs model_defs video_result_def)
  moreover have "spec_locate_output mixed_fs ''/tmp/ltx_video_output_0''
       = video_result ''/tmp/ltx_video_output_0/a.png''"
    by (simp add: spec_locate_output_def mixed_fs_def endswith_def)
  ultimately show ?thesis by blast
qed

section \<open>Entries the loop cannot raise on\<close>

lemma entry_coercible_cases:
  assumes "entry_coercible w e"
  shows "(\<exists>t. process_entry w e = Normal t)
       \<or> process_entry w e = Return (error_result missing_pair_message)"
proof (cases e)
  case (PDict kvs)
  with assms show ?thesis
    by (auto simp: entry_coercible_def process_entry_def entry_start_frame_def
        entry_strength_def bind_exc_def split: if_splits sum.splits)
qed (use assms in \<open>simp_all add: entry_coercible_def\<close>)

lemma defective_entry_Return:
  assumes "\<not> truthy (dict_get bad ''url'' PNone) \<or> dict_get bad ''start_frame'' PNone = PNone"
  shows "process_entry w (PDict bad) = Return (error_result missing_pair_message)"
  using assms by (auto simp: process_entry_def)


lemma defect_reached:
  assumes "list_all (entry_coercible w) pre"
    and "process_entry w bad = Return (error_result missing_pair_message)"
  shows "process_images w (pre @ bad # post) acc = Return (error_result missing_pair_message)"
  using assms(1)
proof (induction pre arbitrary: acc)
  case Nil
  obtain ps ns xs where "acc = (ps, ns, xs)" by (cases acc) auto
  with assms(2) show ?case by simp
next
  case (Cons e pre)
  obtain ps ns xs where acc: "acc = (ps, ns, xs)" by (cases acc) auto
  from Cons.prems have e: "entry_coercible w e" and pre: "list_all (entry_coercible w) pre"
    by simp_all
  from entry_coercible_cases [OF e] show ?case
  proof
    assume "\<exists>t. process_entry w e = Normal t"
    then obtain u n y where "process_entry w e = Normal (u, n, y)" by auto
    with Cons.IH [OF pre] acc show ?thesis by simp
  next
    assume "process_entry w e = Return (error_result missing_pair_message)"
    with acc show ?thesis by simp
  qed
qed

lemma defect_never_Normal:
  assumes "process_entry w bad = Return r"
  shows "process_images w (pre @ bad # post) acc \<noteq> Normal t"
proof
  assume n: "process_images w (pre @ bad # post) acc = Normal t"
  obtain ps ns xs where acc: "acc = (ps, ns, xs)" by (cases acc) auto
  obtain ps' ns' xs' where t: "t = (ps', ns', xs')" by (cases t) auto
  from process_images_Normal [OF n [unfolded acc t]] obtain us ms ys where
    len: "length us = length (pre @ bad # post)" "length ms = length (pre @ bad # post)"
      "length ys = length (pre @ bad # post)"
    and m: "map (process_entry w) (pre @ bad # post) = map Normal (zip us (zip ms ys))"
    by blast
  have "process_entry w bad \<in> set (map (process_entry w) (pre @ bad # post))" by simp
  then have "process_entry w bad \<in> set (map Normal (zip us (zip ms ys)))"
    unfolding m .
  with assms show False by auto
qed

section \<open>No conditioning images\<close>

text \<open>
  Claim C4, as amended. When the \<^verbatim>\<open>conditioning_images\<close> of the job input is absent or
  the empty list, the handler makes no call of \<^verbatim>\<open>infer\<close> and returns an error: for an
  input with a truthy prompt exactly
  \<^verbatim>\<open>{"error": "At least one conditioning image (first frame) is required for image-to-video."}\<close>,
  whose message mentions the conditioning image; for an input whose prompt is absent or
  falsy, \<^verbatim>\<open>{"error": "Prompt is a required input."}\<close>, since the prompt is checked first.
\<close>

theorem no_conditioning_images_rejected:
  assumes "py_get job ''input'' (PDict []) = Inr (PDict ikvs)"
    and "map_of ikvs ''conditioning_images'' = None
       \<or> map_of ikvs ''conditioning_images'' = Some (PList [])"
  shows "infer_calls (handler w fs job) = []
    \<and> (truthy (dict_get ikvs ''prompt'' PNone) \<longrightarrow>
         outcome (handler w fs job) =
           Inr (error_result
             ''At least one conditioning image (first frame) is required for image-to-video.'')
         \<and> is_substring ''conditioning image''
             ''At least one conditioning image (first frame) is required for image-to-video.'')
    \<and> (\<not> truthy (dict_get ikvs ''prompt'' PNone) \<longrightarrow>
         outcome (handler w fs job) = Inr (error_result ''Prompt is a required input.''))"
proof -
  from assms(2) have "\<not> truthy (dict_get ikvs ''conditioning_images'' (PList []))"
    by (auto simp: dict_get_def)
  then show ?thesis
    by (simp add: handler_def prepare_def read_inputs_dict [OF assms(1)])
qed

theorem no_conditioning_images_rejected_witness:
  "py_get no_images_job ''input'' (PDict [])
     = Inr (PDict [(''prompt'', PStr ''a cat''), (''conditioning_images'', PList [])])
   \<and> map_of [(''prompt'', PStr ''a cat''), (''conditioning_images'', PList [])]
        ''conditioning_images'' = Some (PList [])
   \<and> infer_calls (handler stub_world empty_fs no_images_job) = []
   \<and> outcome (handler stub_world empty_fs no_images_job) =
       Inr (error_result
         ''At least one conditioning image (first frame) is required for image-to-video.'')
   \<and> py_get (job_of [(''prompt'', PStr ''a cat'')]) ''input'' (PDict [])
       = Inr (PDict [(''prompt'', PStr ''a cat'')])
   \<and> map_of [(''prompt'', PStr ''a cat'')] ''conditioning_images'' = None
   \<and> outcome (handler stub_world empty_fs (job_of [(''prompt'', PStr ''a cat'')])) =
       Inr (error_result
         ''At least one conditioning image (first frame) is required for image-to-video.'')"
proof -
  have a: "py_get no_images_job ''input'' (PDict [])
     = Inr (PDict [(''prompt'', PStr ''a cat''), (''conditioning_images'', PList [])])"
    by (simp add: no_images_job_def job_of_def dict_get_def)
  have b: "py_get (job_of [(''prompt'', PStr ''a cat'')]) ''input'' (PDict [])
       = Inr (PDict [(''prompt'', PStr ''a cat'')])"
    by (simp add: job_of_def dict_get_def)
  from no_conditioning_images_rejected [OF a, of stub_world empty_fs]
    no_conditioning_images_rejected [OF b, of stub_world empty_fs] a b
  show ?thesis by (simp add: dict_get_def)
qed

text \<open>
  The claim as stated fails on a job with an empty \<^verbatim>\<open>conditioning_images\<close> and no prompt:
  the error it gets does not mention conditioning images.
\<close>

theorem no_conditioning_images_counterexample:
  "py_get no_prompt_job ''input'' (PDict []) = Inr (PDict [(''conditioning_images'', PList [])])
   \<and> outcome (handler stub_world empty_fs no_prompt_job) =
       Inr (error_result ''Prompt is a required input.'')
   \<and> \<not> is_substring ''conditioning'' ''Prompt is a required input.''"
  by (simp add: fixture_defs model_defs)

section \<open>A conditioning entry without url or start frame\<close>

text \<open>
  Claim C5, as amended. Let the \<^verbatim>\<open>conditioning_images\<close> of the job input be a list that
  holds a mapping whose url is absent or falsy or whose start frame is absent or
  \<^verbatim>\<open>None\<close>. Then the handler makes no call of \<^verbatim>\<open>infer\<close>. When moreover the prompt is
  truthy, the output directory is allocated, and every entry before that one is a mapping
  whose start frame and strength \<^verbatim>\<open>int\<close> and \<^verbatim>\<open>float\<close> accept, the handler returns exactly
  \<^verbatim>\<open>{"error": "Each conditioning image must have a 'url' and 'start_frame'."}\<close>. For an
  entry that passes the check, what the loop appends is the url, \<^verbatim>\<open>int\<close> of the start frame
  and \<^verbatim>\<open>float\<close> of the strength.
\<close>

theorem defective_entry_rejected:
  assumes "py_get job ''input'' (PDict []) = Inr (PDict ikvs)"
    and "dict_get ikvs ''conditioning_images'' (PList []) = PList (pre @ PDict bad # post)"
    and "\<not> truthy (dict_get bad ''url'' PNone) \<or> dict_get bad ''start_frame'' PNone = PNone"
  shows "infer_calls (handler w fs job) = []
    \<and> (truthy (dict_get ikvs ''prompt'' PNone)
         \<and> \<not> isl (mkdtemp w ''ltx_video_output_'' fs)
         \<and> list_all (entry_coercible w) pre
       \<longrightarrow> outcome (handler w fs job) = Inr (error_result missing_pair_message))
    \<and> (\<forall>e u n x. process_entry w e = Normal (u, n, x) \<longrightarrow>
          entry_url e = Inr u \<and> entry_start_frame w e = Inr n \<and> entry_strength w e = Inr x)"
proof -
  note bad = defective_entry_Return [OF assms(3), of w]
  have calls: "infer_calls (handler w fs job) = []"
  proof (cases "prepare w fs job")
    case (Normal p)
    then obtain ikvs' entries where "py_get job ''input'' (PDict []) = Inr (PDict ikvs')"
      and "dict_get ikvs' ''conditioning_images'' (PList []) = PList entries"
      and "process_images w entries ([], [], []) =
           Normal (conditioning_media_paths p, conditioning_start_frames p,
                   conditioning_strengths p)"
      by (rule prepare_Normal)
    with assms(1,2) have "process_images w (pre @ PDict bad # post) ([], [], []) =
           Normal (conditioning_media_paths p, conditioning_start_frames p,
                   conditioning_strengths p)"
      by simp
    with defect_never_Normal [OF bad] show ?thesis by blast
  qed (simp_all add: handler_def)
  have out: "outcome (handler w fs job) = Inr (error_result missing_pair_message)"
    if "truthy (dict_get ikvs ''prompt'' PNone)"
      and "\<not> isl (mkdtemp w ''ltx_video_output_'' fs)"
      and "list_all (entry_coercible w) pre"
  proof -
    from that(2) obtain d fs' where "mkdtemp w ''ltx_video_output_'' fs = Inr (d, fs')"
      by (cases "mkdtemp w ''ltx_video_output_'' fs") auto
    with that(1) assms(2) defect_reached [OF that(3) bad] show ?thesis
      by (simp add: handler_def prepare_def read_inputs_dict [OF assms(1)])
  qed
  have coerce: "entry_url e = Inr u \<and> entry_start_frame w e = Inr n \<and> entry_strength w e = Inr x"
    if "process_entry w e = Normal (u, n, x)" for e u n x
    using process_entry_Normal [OF that]
    by (auto simp: entry_url_def entry_start_frame_def entry_strength_def)
  from calls out coerce show ?thesis by blast
qed

theorem defective_entry_rejected_witness:
  "py_get defect_job ''input'' (PDict []) =
     Inr (PDict [(''prompt'', PStr ''a cat''),
                 (''conditioning_images'', PList [entry_a, entry_no_frame, entry_b])])
   \<and> dict_get [(''url'', PStr ''http://host/b.png'')] ''start_frame'' PNone = PNone
   \<and> \<not> isl (mkdtemp stub_world ''ltx_video_output_'' empty_fs)
   \<and> list_all (entry_coercible stub_world) [entry_a]
   \<and> infer_calls (handler stub_world empty_fs defect_job) = []
   \<and> outcome (handler stub_world empty_fs defect_job) = Inr (error_result missing_pair_message)
   \<and> process_entry stub_world entry_b = Normal (PStr ''http://host/b.png'', 60, Finite (1 / 2))
   \<and> entry_start_frame stub_world entry_b = Inr 60
   \<and> entry_strength stub_world entry_b = Inr (Finite (1 / 2))"
proof -
  have a: "py_get defect_job ''input'' (PDict []) =
     Inr (PDict [(''prompt'', PStr ''a cat''),
                 (''conditioning_images'', PList [entry_a, entry_no_frame, entry_b])])"
    by (simp add: defect_job_def job_of_def dict_get_def)
  have b: "dict_get [(''prompt'', PStr ''a cat''),
                 (''conditioning_images'', PList [entry_a, entry_no_frame, entry_b])]
             ''conditioning_images'' (PList [])
           = PList ([entry_a] @ PDict [(''url'', PStr ''http://host/b.png'')] # [entry_b])"
    by (simp add: dict_get_def entry_no_frame_def)
  have c: "\<not> truthy (dict_get [(''url'', PStr ''http://host/b.png'')] ''url'' PNone)
       \<or> dict_get [(''url'', PStr ''http://host/b.png'')] ''start_frame'' PNone = PNone"
    by (simp add: dict_get_def)
  have m: "\<not> isl (mkdtemp stub_world ''ltx_video_output_'' empty_fs)"
    by (simp add: stub_world_def)
  have l: "list_all (entry_coercible stub_world) [entry_a]"
    by (simp add: entry_coercible_def entry_start_frame_def entry_strength_def entry_a_def
        dict_get_def float_1_0_def)
  have e: "process_entry stub_world entry_b = Normal (PStr ''http://host/b.png'', 60, Finite (1 / 2))"
    by (simp add: process_entry_def entry_b_def dict_get_def)
  from defective_entry_rejected [OF a b c, of stub_world empty_fs] m l e c
  show ?thesis
    by (simp add: a dict_get_def)
qed

text \<open>
  The claim as stated fails on a job whose first entry has a start frame \<^verbatim>\<open>int\<close> rejects
  and whose second entry has no start frame: the first entry raises before the second is
  checked, so the handler raises instead of returning an error.
\<close>

theorem defective_entry_counterexample:
  "outcome (handler stub_world empty_fs late_defect_job) =
     Inl (Exception ''TypeError''
       (''int() argument must be a string, a bytes-like object or a real number, not ''
        @ quote ''list''))
   \<and> infer_calls (handler stub_world empty_fs late_defect_job) = []"
  by (simp add: fixture_defs model_defs)

section \<open>What the handler returns, and when it raises\<close>



lemma except_handler_Exception [simp]:
  "except_handler (Exception c m) = Inr (error_result (''Inference failed: '' @ m))"
  by (simp add: except_handler_def)

lemma is_result_simps [simp]:
  "is_error_result (error_result msg)" "\<not> is_video_result (error_result msg)"
  "is_video_result (video_result path)" "\<not> is_error_result (video_result path)"
  by (simp_all add: error_result_def video_result_def)












end
